theory Spec2Isabelle
  imports Complex_Main "HOL-Library.AList"
begin

section \<open>Errors\<close>

text \<open>
  The Python exceptions raised by the modelled code. A raise is the value \<open>Inl e\<close> of a
  result type \<open>error + 'a\<close>; the text of a \<open>TQECException\<close> or
  \<open>NotImplementedError\<close> is kept. An \<open>assert\<close> that fails is \<open>AssertionError\<close>, a
  missing dictionary key is \<open>KeyError\<close>.
\<close>

datatype error =
    TQECException string
  | NotImplementedError string
  | AssertionError
  | KeyError int

section \<open>Basis normalisation of circuits (basis\_change.py)\<close>

subsection \<open>Data\<close>

text \<open>\<open>tqec.enums.Basis\<close>.\<close>

datatype Basis = X | Z

text \<open>
  Modelled from the spec: the enums \<open>ResetBasis\<close> and \<open>MeasurementBasis\<close> of
  \<open>tqec.plaquette.enums\<close> are not among the sources. The pass is configured with a
  target that is a reset basis or a measurement basis, \<open>X\<close> or \<open>Z\<close> each. Members
  of different enums are never equal, which the two constructors give.
\<close>

datatype PassBasis = ResetBasis Basis | MeasurementBasis Basis

text \<open>
  A circuit instruction of the backend: its name, its targets and its numeric arguments.
  The pass only reads the three parts and copies targets and arguments.
\<close>

record instruction =
  name :: string
  targets :: "nat list"
  gate_args :: "real list"

text \<open>
  A circuit of the backend, without repeat blocks, is the sequence of its instructions:
  appending an instruction adds it at the end, \<open>+=\<close> concatenates, and names are
  kept as they are given. A moment is a circuit holding no \<open>TICK\<close>. The qubit set
  cached in a \<open>Moment\<close> is never read when the result circuit is assembled, so a
  moment is represented by its circuit.
\<close>

type_synonym circuit = "instruction list"

type_synonym Moment = "instruction list"

definition append_instruction :: "circuit \<Rightarrow> string \<Rightarrow> nat list \<Rightarrow> real list \<Rightarrow> circuit" where
  "append_instruction c n ts as = c @ [\<lparr>name = n, targets = ts, gate_args = as\<rparr>]"

definition TICK :: instruction where
  "TICK = \<lparr>name = ''TICK'', targets = [], gate_args = []\<rparr>"

text \<open>
  The parts of the repository that the pass calls and that are given from outside: the
  three instruction classifiers of \<open>tqec.circuit.instructions\<close> and the flow check of the
  base class \<open>CompilationPass\<close> (\<open>None\<close> when the check passes).
\<close>

record backend =
  is_measurement_instruction :: "instruction \<Rightarrow> bool"
  is_reset_instruction :: "instruction \<Rightarrow> bool"
  is_combined_reset_and_measurement_instruction :: "instruction \<Rightarrow> bool"
  check_flows :: "circuit \<Rightarrow> circuit \<Rightarrow> error option"

text \<open>
  Modelled from the spec: \<open>iter_stim_circuit_without_repeat_by_moments\<close> of
  \<open>tqec.circuit.moment\<close> is not among the sources. The moments of a circuit are its
  instruction groups separated by the barrier marker \<open>TICK\<close>, in order; the second
  argument is the group being collected.
\<close>

fun iter_stim_circuit_without_repeat_by_moments :: "circuit \<Rightarrow> Moment \<Rightarrow> Moment list" where
  "iter_stim_circuit_without_repeat_by_moments [] cur = [cur]"
| "iter_stim_circuit_without_repeat_by_moments (i # c) cur =
     (if name i = ''TICK'' then cur # iter_stim_circuit_without_repeat_by_moments c []
      else iter_stim_circuit_without_repeat_by_moments c (cur @ [i]))"

text \<open>
  Modelled from the spec: the property \<open>instruction_name\<close> of the two basis enums of
  \<open>tqec.plaquette.enums\<close> is not among the sources. It is the backend's name of the
  reset, or of the measurement, in that basis.
\<close>

fun instruction_name :: "PassBasis \<Rightarrow> string" where
  "instruction_name (ResetBasis X) = ''RX''"
| "instruction_name (ResetBasis Z) = ''RZ''"
| "instruction_name (MeasurementBasis X) = ''MX''"
| "instruction_name (MeasurementBasis Z) = ''MZ''"

subsection \<open>ChangeBasisPass\<close>

fun change_reset_basis :: "PassBasis \<Rightarrow> bool" where
  "change_reset_basis (ResetBasis _) = True"
| "change_reset_basis (MeasurementBasis _) = False"

fun change_measurement_basis :: "PassBasis \<Rightarrow> bool" where
  "change_measurement_basis (MeasurementBasis _) = True"
| "change_measurement_basis (ResetBasis _) = False"

definition may_have_to_change :: "backend \<Rightarrow> PassBasis \<Rightarrow> instruction \<Rightarrow> bool" where
  "may_have_to_change K b i =
     (if change_measurement_basis b then is_measurement_instruction K i
      else is_reset_instruction K i)"

definition unsupported_message :: "instruction \<Rightarrow> string" where
  "unsupported_message i = ''Found a '' @ name i @ '' instruction, that is not supported.''"

definition combined_message :: "instruction \<Rightarrow> string" where
  "combined_message i =
     ''Combined reset and measurement instructions are not supported. Found '' @ name i @ ''.''"

definition get_instruction_basis :: "instruction \<Rightarrow> error + PassBasis" where
  "get_instruction_basis i =
     (if name i = ''M'' \<or> name i = ''MZ'' then Inr (MeasurementBasis Z)
      else if name i = ''MX'' then Inr (MeasurementBasis X)
      else if name i = ''R'' \<or> name i = ''RZ'' then Inr (ResetBasis Z)
      else if name i = ''RX'' then Inr (ResetBasis X)
      else Inl (TQECException (unsupported_message i)))"

text \<open>
  The inner loop of \<open>_with_basis_changed\<close> over the instructions of one moment. The
  state is the pair \<open>(current_moment, basis_change_moment)\<close>.
\<close>

fun moment_instructions_loop ::
  "backend \<Rightarrow> PassBasis \<Rightarrow> instruction list \<Rightarrow> circuit \<times> circuit \<Rightarrow> error + circuit \<times> circuit" where
  "moment_instructions_loop K b [] st = Inr st"
| "moment_instructions_loop K b (i # rest) (current_moment, basis_change_moment) =
     (if \<not> may_have_to_change K b i then
        moment_instructions_loop K b rest (current_moment @ [i], basis_change_moment)
      else if is_combined_reset_and_measurement_instruction K i then
        Inl (TQECException (combined_message i))
      else
        (case get_instruction_basis i of
           Inl e \<Rightarrow> Inl e
         | Inr current_measurement_basis \<Rightarrow>
             if current_measurement_basis = b then
               moment_instructions_loop K b rest (current_moment @ [i], basis_change_moment)
             else
               moment_instructions_loop K b rest
                 (append_instruction current_moment (instruction_name b) (targets i) (gate_args i),
                  append_instruction basis_change_moment ''H'' (targets i) [])))"

text \<open>
  The outer loop over the moments; \<open>ret_moments\<close> is the accumulator. A circuit is true
  in a condition when it holds at least one instruction.
\<close>

fun moments_loop :: "backend \<Rightarrow> PassBasis \<Rightarrow> Moment list \<Rightarrow> Moment list \<Rightarrow> error + Moment list" where
  "moments_loop K b [] ret_moments = Inr ret_moments"
| "moments_loop K b (moment # rest) ret_moments =
     (case moment_instructions_loop K b moment ([], []) of
        Inl e \<Rightarrow> Inl e
      | Inr (current_moment, basis_change_moment) \<Rightarrow>
          moments_loop K b rest
            (ret_moments
             @ (if basis_change_moment \<noteq> [] \<and> change_measurement_basis b
                then [basis_change_moment] else [])
             @ [current_moment]
             @ (if basis_change_moment \<noteq> [] \<and> change_reset_basis b
                then [basis_change_moment] else [])))"

text \<open>
  The assembly of the result: every moment but the last is followed by a \<open>TICK\<close>.
\<close>

definition assemble_circuit :: "Moment list \<Rightarrow> circuit" where
  "assemble_circuit ret_moments =
     concat (map (\<lambda>m. m @ [TICK]) (butlast ret_moments))
     @ (if ret_moments \<noteq> [] then last ret_moments else [])"

definition with_basis_changed :: "backend \<Rightarrow> PassBasis \<Rightarrow> circuit \<Rightarrow> error + circuit" where
  "with_basis_changed K b c =
     (case moments_loop K b (iter_stim_circuit_without_repeat_by_moments c []) [] of
        Inl e \<Rightarrow> Inl e
      | Inr ret_moments \<Rightarrow> Inr (assemble_circuit ret_moments))"

definition run :: "backend \<Rightarrow> PassBasis \<Rightarrow> circuit \<Rightarrow> bool \<Rightarrow> error + circuit" where
  "run K b c check_all_flows =
     (case with_basis_changed K b c of
        Inl e \<Rightarrow> Inl e
      | Inr modified_circuit \<Rightarrow>
          if check_all_flows then
            (case check_flows K c modified_circuit of
               Some e \<Rightarrow> Inl e
             | None \<Rightarrow> Inr modified_circuit)
          else Inr modified_circuit)"

subsection \<open>ChangeMeasurementBasisPass (measurement\_basis.py)\<close>

text \<open>
  The sibling pass is built from a list of scheduled transformations. A transformation
  holds the name of the instruction it replaces and, for each schedule offset relative
  to that instruction, the names of the instructions created there.
\<close>

record ScheduledCircuitTransformation =
  source_name :: string
  transformation :: "(int \<times> string list) list"

fun basis_value :: "Basis \<Rightarrow> string" where
  "basis_value X = ''X''"
| "basis_value Z = ''Z''"

definition ChangeMeasurementBasisPass_init :: "Basis \<Rightarrow> ScheduledCircuitTransformation list" where
  "ChangeMeasurementBasisPass_init basis =
     (let ibasis = (if basis = Z then X else Z);
          transformations =
            [\<lparr>source_name = ''M'' @ basis_value ibasis,
              transformation = [(-1, [''H'']), (0, [''M'' @ basis_value basis])]\<rparr>]
      in if basis = X then
           transformations
           @ [\<lparr>source_name = ''M'',
                transformation = [(-1, [''H'']), (0, [''MX''])]\<rparr>]
         else transformations)"

subsection \<open>Notions of the specification\<close>

text \<open>
  The error that the inner loop raises when it reaches an instruction, if any: a
  candidate for the change is refused when it is a combined reset and measurement, or
  when its name has no basis.
\<close>

definition rejection :: "backend \<Rightarrow> PassBasis \<Rightarrow> instruction \<Rightarrow> error option" where
  "rejection K b i =
     (if \<not> may_have_to_change K b i then None
      else if is_combined_reset_and_measurement_instruction K i then
        Some (TQECException (combined_message i))
      else (case get_instruction_basis i of Inl e \<Rightarrow> Some e | Inr _ \<Rightarrow> None))"

text \<open>
  An instruction needs the change when it is a candidate whose basis is not the target.
  It is then replaced by the instruction of the target basis on the same targets and
  arguments, and an \<open>H\<close> on its targets is its basis change.
\<close>

definition needs_change :: "backend \<Rightarrow> PassBasis \<Rightarrow> instruction \<Rightarrow> bool" where
  "needs_change K b i = (may_have_to_change K b i \<and> get_instruction_basis i \<noteq> Inr b)"

definition rewritten :: "backend \<Rightarrow> PassBasis \<Rightarrow> instruction \<Rightarrow> instruction" where
  "rewritten K b i =
     (if needs_change K b i
      then \<lparr>name = instruction_name b, targets = targets i, gate_args = gate_args i\<rparr>
      else i)"

definition basis_changes :: "backend \<Rightarrow> PassBasis \<Rightarrow> Moment \<Rightarrow> Moment" where
  "basis_changes K b m =
     map (\<lambda>i. \<lparr>name = ''H'', targets = targets i, gate_args = []\<rparr>) (filter (needs_change K b) m)"

text \<open>
  The moments that replace a moment \<open>m\<close>. When nothing in \<open>m\<close> needs the change, \<open>m\<close>
  itself. Otherwise the moment of the basis changes and the moment of the rewritten
  instructions: the basis changes come first for a measurement target and last for a
  reset target.
\<close>

definition normalised_moment :: "backend \<Rightarrow> PassBasis \<Rightarrow> Moment \<Rightarrow> Moment list" where
  "normalised_moment K b m =
     (if filter (needs_change K b) m = [] then [m]
      else if change_measurement_basis b
        then [basis_changes K b m, map (rewritten K b) m]
        else [map (rewritten K b) m, basis_changes K b m])"

text \<open>
  The same with the order that the specification states: the basis changes first for a
  reset target and last for a measurement target.
\<close>

definition claimed_moment :: "backend \<Rightarrow> PassBasis \<Rightarrow> Moment \<Rightarrow> Moment list" where
  "claimed_moment K b m =
     (if filter (needs_change K b) m = [] then [m]
      else if change_reset_basis b
        then [basis_changes K b m, map (rewritten K b) m]
        else [map (rewritten K b) m, basis_changes K b m])"

text \<open>The instructions of a circuit that are not the barrier marker.\<close>

definition without_ticks :: "circuit \<Rightarrow> instruction list" where
  "without_ticks c = filter (\<lambda>i. name i \<noteq> ''TICK'') c"

section \<open>Block and substitution builders (compile/specs/library/base.py)\<close>

subsection \<open>Data\<close>

text \<open>
  Modelled from the spec: \<open>Direction3D\<close> of \<open>tqec.position\<close> and \<open>PipeKind\<close> of
  \<open>tqec.computation.pipe\<close> are not among the sources. A pipe kind holds, per axis, the
  boundary basis (absent, the letter \<open>O\<close>, on the pipe's own axis) and a Hadamard flag; its
  direction is the axis whose letter is \<open>O\<close>, it is temporal when the direction is the
  third axis and spatial otherwise. The basis along an axis is absent on the pipe's own
  axis; at the head it is the stored basis, at the other end a Hadamard pipe has the
  flipped one.
\<close>

datatype Direction3D = Direction3D_X | Direction3D_Y | Direction3D_Z

record PipeKind =
  pipe_x :: "Basis option"
  pipe_y :: "Basis option"
  pipe_z :: "Basis option"
  has_hadamard :: bool

definition direction :: "PipeKind \<Rightarrow> Direction3D" where
  "direction pk =
     (if pipe_x pk = None then Direction3D_X
      else if pipe_y pk = None then Direction3D_Y
      else Direction3D_Z)"

definition is_temporal :: "PipeKind \<Rightarrow> bool" where
  "is_temporal pk = (direction pk = Direction3D_Z)"

definition is_spatial :: "PipeKind \<Rightarrow> bool" where
  "is_spatial pk = (direction pk = Direction3D_X \<or> direction pk = Direction3D_Y)"

fun flipped :: "Basis \<Rightarrow> Basis" where
  "flipped X = Z"
| "flipped Z = X"

definition get_basis_along :: "PipeKind \<Rightarrow> Direction3D \<Rightarrow> bool \<Rightarrow> Basis option" where
  "get_basis_along pk d at_head =
     (if d = direction pk then None
      else map_option (\<lambda>head. if at_head \<or> \<not> has_hadamard pk then head else flipped head)
             (case d of
                Direction3D_X \<Rightarrow> pipe_x pk
              | Direction3D_Y \<Rightarrow> pipe_y pk
              | Direction3D_Z \<Rightarrow> pipe_z pk))"

text \<open>
  The enums of \<open>tqec.compile.specs.enums\<close>, \<open>tqec.templates.enums\<close> and
  \<open>tqec.templates.indices.enums\<close>. \<open>JunctionArms\<close> is a flag enum: a value is a set of
  arms, \<open>JunctionArms.RIGHT\<close> is \<open>{RIGHT}\<close>.
\<close>

datatype JunctionArm = UP | RIGHT | DOWN | LEFT

type_synonym JunctionArms = "JunctionArm set"

datatype ZObservableOrientation = HORIZONTAL | VERTICAL

datatype TemplateBorder = Border_TOP | Border_BOTTOM | Border_LEFT | Border_RIGHT

text \<open>The cube kinds of \<open>tqec.computation.cube\<close>; a \<open>ZXCube\<close> holds its three bases.\<close>

datatype CubeKind = ZXCube Basis Basis Basis | Port | YCube

text \<open>
  Modelled from the spec: \<open>CubeSpec\<close> and \<open>PipeSpec\<close> of \<open>tqec.compile.specs.base\<close>
  are not among the sources. A cube specification is the kind and the junction arms;
  whether it is a spatial junction is a property the builders read, carried as a field.
  A pipe specification is the pipe kind, the two endpoint specifications and the two
  endpoint templates.
\<close>

record CubeSpec =
  kind :: CubeKind
  junction_arms :: JunctionArms
  is_spatial_junction :: bool

text \<open>
  Modelled from the spec: the templates of \<open>tqec.templates\<close> are not among the sources.
  A template exposes, for each of its four sides, the ordered sequence of slot indices on
  that border, which is all the builders read of it. The bijection between two borders is
  the positional zip of the two sequences, as a dictionary.
\<close>

type_synonym Template = "TemplateBorder \<Rightarrow> int list"

definition get_border_indices :: "Template \<Rightarrow> TemplateBorder \<Rightarrow> int list" where
  "get_border_indices t border = t border"

definition border_to :: "int list \<Rightarrow> int list \<Rightarrow> (int \<rightharpoonup> int)" where
  "border_to self other = foldl (\<lambda>m (s, o'). m(s \<mapsto> o')) Map.empty (zip self other)"

record PipeSpec =
  cube_specs :: "CubeSpec \<times> CubeSpec"
  cube_templates :: "Template \<times> Template"
  pipe_kind :: PipeKind

text \<open>Reading a Python dictionary at a key raises \<open>KeyError\<close> when the key is missing.\<close>

definition getitem :: "(int \<rightharpoonup> int) \<Rightarrow> int \<Rightarrow> error + int" where
  "getitem m i = (case m i of None \<Rightarrow> Inl (KeyError i) | Some j \<Rightarrow> Inr j)"

text \<open>
  Modelled from the spec: \<open>FrozenDefaultDict\<close> of \<open>tqec.plaquette.frozendefaultdict\<close> is
  not among the sources. A plaquette layer maps slot indices to values and gives missing
  indices a fixed background value. \<open>map_values\<close> applies a function to every value, the
  background included; \<open>map_keys\<close> builds the dictionary of the renamed keys in the order
  of the items, a later item replacing an earlier one with the same new key, and fails
  when the renaming does.
\<close>

record 'v FrozenDefaultDict =
  items :: "(int \<times> 'v) list"
  default_value :: 'v

definition map_values :: "('v \<Rightarrow> 'w) \<Rightarrow> 'v FrozenDefaultDict \<Rightarrow> 'w FrozenDefaultDict" where
  "map_values f d =
     \<lparr>items = map (\<lambda>(k, v). (k, f v)) (items d), default_value = f (default_value d)\<rparr>"

fun map_keys_items ::
  "(int \<Rightarrow> error + int) \<Rightarrow> (int \<times> 'v) list \<Rightarrow> (int \<times> 'v) list \<Rightarrow> error + (int \<times> 'v) list" where
  "map_keys_items f [] acc = Inr acc"
| "map_keys_items f ((k, v) # rest) acc =
     (case f k of
        Inl e \<Rightarrow> Inl e
      | Inr k' \<Rightarrow> map_keys_items f rest (AList.update k' v acc))"

definition map_keys ::
  "(int \<Rightarrow> error + int) \<Rightarrow> 'v FrozenDefaultDict \<Rightarrow> error + 'v FrozenDefaultDict" where
  "map_keys f d =
     (case map_keys_items f (items d) [] of
        Inl e \<Rightarrow> Inl e
      | Inr its \<Rightarrow> Inr \<lparr>items = its, default_value = default_value d\<rparr>)"

text \<open>
  \<open>Plaquettes\<close> wraps a layer of plaquettes. A \<open>Substitution\<close> is two dictionaries from
  layer indices to plaquette layers, a \<open>CompiledBlock\<close> a template and its layers.
\<close>

datatype 'p Plaquettes = Plaquettes "'p FrozenDefaultDict"

record 'p Substitution =
  src :: "int \<rightharpoonup> 'p Plaquettes"
  dst :: "int \<rightharpoonup> 'p Plaquettes"

record 'p CompiledBlock =
  template :: Template
  layers :: "'p Plaquettes list"

text \<open>
  The parts of the repository that the builders call and that are given from outside:
  the translator and the compiler of plaquettes (both produce a plaquette \<open>'p\<close>, from a
  description \<open>'d\<close> and from a plaquette), and the template and description library of
  \<open>tqec.templates.library\<close>. The optional reset and measurement bases of a description
  factory are absent (\<open>None\<close>) where the builder does not give them.
\<close>

record ('d, 'p) library =
  translate :: "'d \<Rightarrow> 'p"
  compile :: "'p \<Rightarrow> 'p"
  get_memory_qubit_raw_template :: Template
  get_memory_qubit_rpng_descriptions ::
    "ZObservableOrientation \<Rightarrow> Basis option \<Rightarrow> Basis option \<Rightarrow> 'd FrozenDefaultDict"
  get_memory_vertical_boundary_raw_template :: Template
  get_memory_vertical_boundary_rpng_descriptions ::
    "ZObservableOrientation \<Rightarrow> Basis option \<Rightarrow> Basis option \<Rightarrow> 'd FrozenDefaultDict"
  get_memory_horizontal_boundary_raw_template :: Template
  get_memory_horizontal_boundary_rpng_descriptions ::
    "ZObservableOrientation \<Rightarrow> Basis option \<Rightarrow> Basis option \<Rightarrow> 'd FrozenDefaultDict"
  get_temporal_hadamard_rpng_descriptions :: "ZObservableOrientation \<Rightarrow> 'd FrozenDefaultDict"
  get_spatial_junction_qubit_raw_template :: Template
  get_spatial_junction_arm_raw_template :: "JunctionArms \<Rightarrow> Template"
  get_spatial_junction_qubit_rpng_descriptions ::
    "Basis \<Rightarrow> JunctionArms \<Rightarrow> Basis option \<Rightarrow> Basis option \<Rightarrow> 'd FrozenDefaultDict"

subsection \<open>BaseBlockBuilder\<close>

definition get_template_and_plaquettes ::
  "('d, 'p) library \<Rightarrow> CubeSpec \<Rightarrow> error + Template \<times> 'd FrozenDefaultDict list" where
  "get_template_and_plaquettes L spec =
     (case kind spec of
        ZXCube x y z \<Rightarrow>
          (let resets_and_measurements = [(Some z, None), (None, None), (None, Some z)] in
           if \<not> is_spatial_junction spec then
             (let orientation = (if x = Z then HORIZONTAL else VERTICAL) in
              Inr (get_memory_qubit_raw_template L,
                   map (\<lambda>(r, m). get_memory_qubit_rpng_descriptions L orientation r m)
                     resets_and_measurements))
           else
             Inr (get_spatial_junction_qubit_raw_template L,
                  map (\<lambda>(r, m). get_spatial_junction_qubit_rpng_descriptions L x
                                   (junction_arms spec) r m)
                    resets_and_measurements))
      | _ \<Rightarrow> Inl AssertionError)"

definition BaseBlockBuilder_call :: "('d, 'p) library \<Rightarrow> CubeSpec \<Rightarrow> error + 'p CompiledBlock" where
  "BaseBlockBuilder_call L spec =
     (case kind spec of
        Port \<Rightarrow> Inl (TQECException ''Cannot build a block for a Port.'')
      | YCube \<Rightarrow> Inl (NotImplementedError ''Y cube is not implemented.'')
      | _ \<Rightarrow>
          (case get_template_and_plaquettes L spec of
             Inl e \<Rightarrow> Inl e
           | Inr (tmpl, mappings) \<Rightarrow>
               Inr \<lparr>template = tmpl,
                    layers = map (\<lambda>mapping.
                                    Plaquettes (map_values (\<lambda>descr. compile L (translate L descr))
                                                  mapping))
                               mappings\<rparr>))"

subsection \<open>BaseSubstitutionBuilder: temporal pipes\<close>

definition get_plaquette :: "('d, 'p) library \<Rightarrow> 'd \<Rightarrow> 'p" where
  "get_plaquette L description = compile L (translate L description)"

definition get_temporal_non_hadamard_pipe_substitution ::
  "('d, 'p) library \<Rightarrow> PipeSpec \<Rightarrow> error + 'p Substitution" where
  "get_temporal_non_hadamard_pipe_substitution L spec =
     (if \<not> is_temporal (pipe_kind spec) then Inl AssertionError
      else if has_hadamard (pipe_kind spec) then Inl AssertionError
      else
        (let z_observable_orientation =
               (if pipe_x (pipe_kind spec) = Some Z then HORIZONTAL else VERTICAL);
             memory_descriptions =
               get_memory_qubit_rpng_descriptions L z_observable_orientation None None;
             memory_plaquettes = Plaquettes (map_values (get_plaquette L) memory_descriptions)
         in Inr \<lparr>src = [-1 \<mapsto> memory_plaquettes], dst = [0 \<mapsto> memory_plaquettes]\<rparr>))"

definition get_temporal_hadamard_pipe_substitution ::
  "('d, 'p) library \<Rightarrow> PipeSpec \<Rightarrow> error + 'p Substitution" where
  "get_temporal_hadamard_pipe_substitution L spec =
     (if \<not> is_temporal (pipe_kind spec) then Inl AssertionError
      else if \<not> has_hadamard (pipe_kind spec) then Inl AssertionError
      else
        (case get_basis_along (pipe_kind spec) Direction3D_X True of
           None \<Rightarrow>
             Inl (TQECException ''A temporal pipe should have a non-None basis on the X-axis.'')
         | Some x_axis_basis_at_head \<Rightarrow>
             (let (first_layer_orientation, second_layer_orientation) =
                    (if x_axis_basis_at_head = Z then (HORIZONTAL, VERTICAL)
                     else (VERTICAL, HORIZONTAL));
                  hadamard_descriptions =
                    get_temporal_hadamard_rpng_descriptions L first_layer_orientation;
                  hadamard_plaquettes =
                    Plaquettes (map_values (get_plaquette L) hadamard_descriptions);
                  memory_descriptions =
                    get_memory_qubit_rpng_descriptions L second_layer_orientation None None;
                  memory_plaquettes =
                    Plaquettes (map_values (get_plaquette L) memory_descriptions)
              in Inr \<lparr>src = [-1 \<mapsto> hadamard_plaquettes], dst = [0 \<mapsto> memory_plaquettes]\<rparr>)))"

definition get_temporal_pipe_substitution ::
  "('d, 'p) library \<Rightarrow> PipeSpec \<Rightarrow> error + 'p Substitution" where
  "get_temporal_pipe_substitution L spec =
     (if \<not> is_temporal (pipe_kind spec) then Inl AssertionError
      else if has_hadamard (pipe_kind spec) then get_temporal_hadamard_pipe_substitution L spec
      else get_temporal_non_hadamard_pipe_substitution L spec)"

subsection \<open>BaseSubstitutionBuilder: spatial pipes\<close>

definition get_plaquette_indices_mapping ::
  "Template \<times> Template \<Rightarrow> Template \<Rightarrow> Direction3D \<Rightarrow> error + (int \<rightharpoonup> int) \<times> (int \<rightharpoonup> int)" where
  "get_plaquette_indices_mapping qubit_templates pipe_template d =
     (case (case d of
              Direction3D_X \<Rightarrow> Inr (Border_LEFT, Border_RIGHT)
            | Direction3D_Y \<Rightarrow> Inr (Border_BOTTOM, Border_TOP)
            | Direction3D_Z \<Rightarrow>
                Inl (TQECException ''This method cannot be used with a temporal pipe.'')) of
        Inl e \<Rightarrow> Inl e
      | Inr (tb1, tb2) \<Rightarrow>
          Inr (border_to (get_border_indices pipe_template tb1)
                 (get_border_indices (fst qubit_templates) tb2),
               border_to (get_border_indices pipe_template tb2)
                 (get_border_indices (snd qubit_templates) tb1)))"

definition get_spatial_junction_arm :: "PipeSpec \<Rightarrow> error + JunctionArms" where
  "get_spatial_junction_arm spec =
     (let spatial_junction_is_first = is_spatial_junction (fst (cube_specs spec)) in
      case (spatial_junction_is_first, direction (pipe_kind spec)) of
        (True, Direction3D_X) \<Rightarrow> Inr {RIGHT}
      | (False, Direction3D_X) \<Rightarrow> Inr {LEFT}
      | (True, Direction3D_Y) \<Rightarrow> Inr {UP}
      | (False, Direction3D_Y) \<Rightarrow> Inr {DOWN}
      | (_, Direction3D_Z) \<Rightarrow>
          Inl (TQECException
                 ''Should never happen as we are in a spatial (i.e., X/Y plane) junction.''))"

text \<open>
  The loop that fills \<open>src_substitution\<close> and \<open>dst_substitution\<close>, written twice in
  the source (for junction and for regular pipes) with the description factory as the
  only difference. The state is the pair of the two dictionaries; the list is the
  enumeration of the three \<open>(reset, measurement)\<close> pairs.
\<close>

fun substitution_layers_loop ::
  "('d, 'p) library \<Rightarrow> (Basis option \<Rightarrow> Basis option \<Rightarrow> 'd FrozenDefaultDict) \<Rightarrow>
   (int \<rightharpoonup> int) \<times> (int \<rightharpoonup> int) \<Rightarrow> (nat \<times> Basis option \<times> Basis option) list \<Rightarrow>
   (int \<rightharpoonup> 'p Plaquettes) \<times> (int \<rightharpoonup> 'p Plaquettes) \<Rightarrow>
   error + (int \<rightharpoonup> 'p Plaquettes) \<times> (int \<rightharpoonup> 'p Plaquettes)" where
  "substitution_layers_loop L factory mappings [] st = Inr st"
| "substitution_layers_loop L factory mappings ((layer_index, reset, measurement) # rest)
     (src_substitution, dst_substitution) =
     (let rpng_descriptions = factory reset measurement;
          plaquettes = map_values (get_plaquette L) rpng_descriptions
      in case map_keys (getitem (fst mappings)) plaquettes of
           Inl e \<Rightarrow> Inl e
         | Inr src_layer \<Rightarrow>
             (case map_keys (getitem (snd mappings)) plaquettes of
                Inl e \<Rightarrow> Inl e
              | Inr dst_layer \<Rightarrow>
                  substitution_layers_loop L factory mappings rest
                    (src_substitution(int layer_index \<mapsto> Plaquettes src_layer),
                     dst_substitution(int layer_index \<mapsto> Plaquettes dst_layer))))"

definition layer_resets_and_measurements ::
  "PipeSpec \<Rightarrow> (nat \<times> Basis option \<times> Basis option) list" where
  "layer_resets_and_measurements spec =
     enumerate 0 [(pipe_z (pipe_kind spec), None), (None, None), (None, pipe_z (pipe_kind spec))]"

definition make_substitution ::
  "error + (int \<rightharpoonup> 'p Plaquettes) \<times> (int \<rightharpoonup> 'p Plaquettes) \<Rightarrow> error + 'p Substitution" where
  "make_substitution r =
     (case r of
        Inl e \<Rightarrow> Inl e
      | Inr (src_substitution, dst_substitution) \<Rightarrow>
          Inr \<lparr>src = src_substitution, dst = dst_substitution\<rparr>)"

text \<open>
  The body of \<open>_get_spatial_junction_pipe_substitution\<close> from the point where the arm
  is known.
\<close>

definition junction_arm_substitution ::
  "('d, 'p) library \<Rightarrow> PipeSpec \<Rightarrow> JunctionArms \<Rightarrow> error + 'p Substitution" where
  "junction_arm_substitution L spec arm =
     (let xbasis = pipe_x (pipe_kind spec); ybasis = pipe_y (pipe_kind spec) in
      case (case xbasis of Some b \<Rightarrow> Some b | None \<Rightarrow> ybasis) of
        None \<Rightarrow> Inl AssertionError
      | Some spatial_boundary_basis \<Rightarrow>
          (let pipe_template = get_spatial_junction_arm_raw_template L arm in
           case get_plaquette_indices_mapping (cube_templates spec) pipe_template
                  (direction (pipe_kind spec)) of
             Inl e \<Rightarrow> Inl e
           | Inr mappings \<Rightarrow>
               make_substitution
                 (substitution_layers_loop L
                    (get_spatial_junction_qubit_rpng_descriptions L spatial_boundary_basis arm)
                    mappings (layer_resets_and_measurements spec) (Map.empty, Map.empty))))"

definition get_spatial_junction_pipe_substitution ::
  "('d, 'p) library \<Rightarrow> PipeSpec \<Rightarrow> error + 'p Substitution" where
  "get_spatial_junction_pipe_substitution L spec =
     (if \<not> is_spatial (pipe_kind spec) then Inl AssertionError
      else if \<not> (is_spatial_junction (fst (cube_specs spec))
                  \<or> is_spatial_junction (snd (cube_specs spec))) then Inl AssertionError
      else if is_spatial_junction (fst (cube_specs spec))
              \<and> is_spatial_junction (snd (cube_specs spec)) then
        Inl (TQECException ''Found 2 spatial junctions connected. This is not supported yet.'')
      else
        (case get_spatial_junction_arm spec of
           Inl e \<Rightarrow> Inl e
         | Inr arm \<Rightarrow> junction_arm_substitution L spec arm))"

definition get_spatial_regular_pipe_substitution ::
  "('d, 'p) library \<Rightarrow> PipeSpec \<Rightarrow> error + 'p Substitution" where
  "get_spatial_regular_pipe_substitution L spec =
     (if \<not> (\<not> is_spatial_junction (fst (cube_specs spec))
             \<and> \<not> is_spatial_junction (snd (cube_specs spec))) then Inl AssertionError
      else
        (case direction (pipe_kind spec) of
           Direction3D_X \<Rightarrow>
             (let pipe_template = get_memory_vertical_boundary_raw_template L;
                  mappings =
                    (border_to (get_border_indices pipe_template Border_LEFT)
                       (get_border_indices (fst (cube_templates spec)) Border_RIGHT),
                     border_to (get_border_indices pipe_template Border_RIGHT)
                       (get_border_indices (snd (cube_templates spec)) Border_LEFT));
                  z_observable_orientation =
                    (if pipe_y (pipe_kind spec) = Some X then HORIZONTAL else VERTICAL)
              in make_substitution
                   (substitution_layers_loop L
                      (get_memory_vertical_boundary_rpng_descriptions L z_observable_orientation)
                      mappings (layer_resets_and_measurements spec) (Map.empty, Map.empty)))
         | Direction3D_Y \<Rightarrow>
             (let pipe_template = get_memory_horizontal_boundary_raw_template L;
                  mappings =
                    (border_to (get_border_indices pipe_template Border_BOTTOM)
                       (get_border_indices (fst (cube_templates spec)) Border_TOP),
                     border_to (get_border_indices pipe_template Border_TOP)
                       (get_border_indices (snd (cube_templates spec)) Border_BOTTOM));
                  z_observable_orientation =
                    (if pipe_x (pipe_kind spec) = Some Z then HORIZONTAL else VERTICAL)
              in make_substitution
                   (substitution_layers_loop L
                      (get_memory_horizontal_boundary_rpng_descriptions L z_observable_orientation)
                      mappings (layer_resets_and_measurements spec) (Map.empty, Map.empty)))
         | Direction3D_Z \<Rightarrow>
             Inl (TQECException
                    ''Spatial pipes cannot have a direction equal to Direction3D.Z.'')))"

definition get_spatial_pipe_substitution ::
  "('d, 'p) library \<Rightarrow> PipeSpec \<Rightarrow> error + 'p Substitution" where
  "get_spatial_pipe_substitution L spec =
     (if \<not> is_spatial (pipe_kind spec) then Inl AssertionError
      else if is_spatial_junction (fst (cube_specs spec))
        then get_spatial_junction_pipe_substitution L spec
        else get_spatial_regular_pipe_substitution L spec)"

definition BaseSubstitutionBuilder_call ::
  "('d, 'p) library \<Rightarrow> PipeSpec \<Rightarrow> error + 'p Substitution" where
  "BaseSubstitutionBuilder_call L spec =
     (if is_temporal (pipe_kind spec) then get_temporal_pipe_substitution L spec
      else get_spatial_pipe_substitution L spec)"

subsection \<open>Notions of the specification\<close>

text \<open>
  The orientation given by a boundary basis on the first axis, and the rotated
  (opposite) orientation.
\<close>

fun orientation_of :: "Basis \<Rightarrow> ZObservableOrientation" where
  "orientation_of Z = HORIZONTAL"
| "orientation_of X = VERTICAL"

fun rotated :: "ZObservableOrientation \<Rightarrow> ZObservableOrientation" where
  "rotated HORIZONTAL = VERTICAL"
| "rotated VERTICAL = HORIZONTAL"

text \<open>The plaquette layer that the builder makes of a layer of descriptions.\<close>

definition plaquettes_of :: "('d, 'p) library \<Rightarrow> 'd FrozenDefaultDict \<Rightarrow> 'p Plaquettes" where
  "plaquettes_of L descriptions = Plaquettes (map_values (get_plaquette L) descriptions)"

text \<open>
  The specification's description of a substitution: both dictionaries have only the
  relative layer indices \<open>-1\<close> and \<open>0\<close> as keys. A call that raises produces no
  substitution.
\<close>

definition keys_within_boundary_layers :: "error + 'p Substitution \<Rightarrow> bool" where
  "keys_within_boundary_layers r =
     (case r of
        Inl e \<Rightarrow> True
      | Inr s \<Rightarrow> dom (src s) \<subseteq> {-1, 0} \<and> dom (dst s) \<subseteq> {-1, 0})"

section \<open>Concrete values for evaluation\<close>

text \<open>
  An instance of the classifiers by the names of the backend's instructions, with a flow check that
  always passes, and a shorthand for an instruction without arguments.
\<close>

definition stim_backend :: backend where
  "stim_backend =
     \<lparr>is_measurement_instruction =
        (\<lambda>i. name i \<in> set [''M'', ''MZ'', ''MX'', ''MY'', ''MR'', ''MRZ'', ''MRX'', ''MRY'',
                              ''MPP'', ''MXX'', ''MYY'', ''MZZ'']),
      is_reset_instruction =
        (\<lambda>i. name i \<in> set [''R'', ''RZ'', ''RX'', ''RY'', ''MR'', ''MRZ'', ''MRX'', ''MRY'']),
      is_combined_reset_and_measurement_instruction =
        (\<lambda>i. name i \<in> set [''MR'', ''MRZ'', ''MRX'', ''MRY'']),
      check_flows = (\<lambda>c c'. None)\<rparr>"

definition instr :: "string \<Rightarrow> nat list \<Rightarrow> instruction" where
  "instr n ts = \<lparr>name = n, targets = ts, gate_args = []\<rparr>"

text \<open>
  A small library: every template has the border \<open>[1, 2]\<close> on each side, every layer
  has the two slots \<open>1\<close> and \<open>2\<close>, and a description is the name of the factory that
  made it with its orientation. Translator and compiler leave a description as it is.
\<close>

definition example_layer :: "string \<Rightarrow> string FrozenDefaultDict" where
  "example_layer tag = \<lparr>items = [(1, tag), (2, tag)], default_value = ''empty''\<rparr>"

fun orientation_tag :: "ZObservableOrientation \<Rightarrow> string" where
  "orientation_tag HORIZONTAL = ''_horizontal''"
| "orientation_tag VERTICAL = ''_vertical''"

definition example_library :: "(string, string) library" where
  "example_library =
     \<lparr>translate = (\<lambda>d. d),
      compile = (\<lambda>p. p),
      get_memory_qubit_raw_template = (\<lambda>border. [1, 2]),
      get_memory_qubit_rpng_descriptions =
        (\<lambda>orientation r m. example_layer (''memory'' @ orientation_tag orientation)),
      get_memory_vertical_boundary_raw_template = (\<lambda>border. [1, 2]),
      get_memory_vertical_boundary_rpng_descriptions =
        (\<lambda>orientation r m. example_layer (''vertical_boundary'' @ orientation_tag orientation)),
      get_memory_horizontal_boundary_raw_template = (\<lambda>border. [1, 2]),
      get_memory_horizontal_boundary_rpng_descriptions =
        (\<lambda>orientation r m. example_layer (''horizontal_boundary'' @ orientation_tag orientation)),
      get_temporal_hadamard_rpng_descriptions =
        (\<lambda>orientation. example_layer (''hadamard'' @ orientation_tag orientation)),
      get_spatial_junction_qubit_raw_template = (\<lambda>border. [1, 2]),
      get_spatial_junction_arm_raw_template = (\<lambda>arm border. [1, 2]),
      get_spatial_junction_qubit_rpng_descriptions =
        (\<lambda>basis arm r m. example_layer ''junction'')\<rparr>"

text \<open>
  A regular cube \<open>ZXZ\<close> and a spatial junction \<open>ZZX\<close> with two arms; the pipe kinds
  \<open>OXZ\<close> (spatial, along the first axis), \<open>ZXO\<close> and \<open>ZXOH\<close> (temporal).
\<close>

definition regular_cube :: CubeSpec where
  "regular_cube = \<lparr>kind = ZXCube Z X Z, junction_arms = {}, is_spatial_junction = False\<rparr>"

definition junction_cube :: CubeSpec where
  "junction_cube =
     \<lparr>kind = ZXCube Z Z X, junction_arms = {UP, RIGHT}, is_spatial_junction = True\<rparr>"

definition pipe_OXZ :: PipeKind where
  "pipe_OXZ = \<lparr>pipe_x = None, pipe_y = Some X, pipe_z = Some Z, has_hadamard = False\<rparr>"

definition pipe_ZXO :: PipeKind where
  "pipe_ZXO = \<lparr>pipe_x = Some Z, pipe_y = Some X, pipe_z = None, has_hadamard = False\<rparr>"

definition pipe_ZXOH :: PipeKind where
  "pipe_ZXOH = \<lparr>pipe_x = Some Z, pipe_y = Some X, pipe_z = None, has_hadamard = True\<rparr>"

definition example_pipe :: "PipeKind \<Rightarrow> CubeSpec \<Rightarrow> CubeSpec \<Rightarrow> PipeSpec" where
  "example_pipe pk c1 c2 =
     \<lparr>cube_specs = (c1, c2),
      cube_templates = ((\<lambda>border. [1, 2]), (\<lambda>border. [1, 2])),
      pipe_kind = pk\<rparr>"

text \<open>
  The substitutions that the builder makes in the small library of the spatial pipe
  \<open>OXZ\<close> and of the temporal pipe \<open>ZXO\<close> between two regular cubes.
\<close>

definition example_spatial_substitution :: "string Substitution" where
  "example_spatial_substitution =
     \<lparr>src = [0 \<mapsto> Plaquettes (example_layer ''vertical_boundary_horizontal''),
             1 \<mapsto> Plaquettes (example_layer ''vertical_boundary_horizontal''),
             2 \<mapsto> Plaquettes (example_layer ''vertical_boundary_horizontal'')],
      dst = [0 \<mapsto> Plaquettes (example_layer ''vertical_boundary_horizontal''),
             1 \<mapsto> Plaquettes (example_layer ''vertical_boundary_horizontal''),
             2 \<mapsto> Plaquettes (example_layer ''vertical_boundary_horizontal'')]\<rparr>"

definition example_temporal_substitution :: "string Substitution" where
  "example_temporal_substitution =
     \<lparr>src = [-1 \<mapsto> Plaquettes (example_layer ''memory_horizontal'')],
      dst = [0 \<mapsto> Plaquettes (example_layer ''memory_horizontal'')]\<rparr>"

section \<open>Properties of the basis normalisation\<close>

subsection \<open>The loops in closed form\<close>

lemma basis_changes_Cons:
  "basis_changes K b (i # m) =
     (if needs_change K b i then [\<lparr>name = ''H'', targets = targets i, gate_args = []\<rparr>] else [])
     @ basis_changes K b m"
  by (simp add: basis_changes_def)

lemma moment_instructions_loop_step_pass:
  assumes "rejection K b i = None"
  shows "moment_instructions_loop K b (i # m) (cur, bc) =
           moment_instructions_loop K b m
             (cur @ [rewritten K b i],
              bc @ (if needs_change K b i
                    then [\<lparr>name = ''H'', targets = targets i, gate_args = []\<rparr>] else []))"
  using assms
  by (auto simp: rejection_def rewritten_def needs_change_def append_instruction_def
           split: if_splits sum.splits)

lemma moment_instructions_loop_step_fail:
  assumes "rejection K b i = Some e"
  shows "moment_instructions_loop K b (i # m) (cur, bc) = Inl e"
  using assms
  by (auto simp: rejection_def split: if_splits sum.splits)

lemma moment_instructions_loop_char:
  "moment_instructions_loop K b m (cur, bc) =
     (case List.map_filter (rejection K b) m of
        [] \<Rightarrow> Inr (cur @ map (rewritten K b) m, bc @ basis_changes K b m)
      | e # _ \<Rightarrow> Inl e)"
proof (induction m arbitrary: cur bc)
  case Nil
  then show ?case by (simp add: basis_changes_def)
next
  case (Cons i m)
  show ?case
  proof (cases "rejection K b i")
    case None
    then show ?thesis
      by (simp add: moment_instructions_loop_step_pass Cons.IH basis_changes_Cons
               del: moment_instructions_loop.simps split: list.splits)
  next
    case (Some e)
    then show ?thesis
      by (simp add: moment_instructions_loop_step_fail
               del: moment_instructions_loop.simps)
  qed
qed

lemma map_filter_append:
  "List.map_filter f (xs @ ys) = List.map_filter f xs @ List.map_filter f ys"
  by (simp add: List.map_filter_def)

lemma map_filter_empty_iff:
  "List.map_filter f xs = [] \<longleftrightarrow> (\<forall>x \<in> set xs. f x = None)"
  by (simp add: List.map_filter_def filter_empty_conv)

lemma basis_changes_empty_iff:
  "basis_changes K b m = [] \<longleftrightarrow> filter (needs_change K b) m = []"
  by (simp add: basis_changes_def)

lemma map_rewritten_unchanged:
  "filter (needs_change K b) m = [] \<Longrightarrow> map (rewritten K b) m = m"
  by (induction m) (simp_all add: rewritten_def split: if_splits)

lemma change_reset_not_measurement:
  "change_reset_basis b = (\<not> change_measurement_basis b)"
  by (cases b) simp_all

lemma moments_loop_step_pass:
  assumes "List.map_filter (rejection K b) m = []"
  shows "moments_loop K b (m # ms) ret = moments_loop K b ms (ret @ normalised_moment K b m)"
  using assms
  by (simp add: moment_instructions_loop_char [of K b m "[]" "[]", simplified]
                normalised_moment_def basis_changes_empty_iff map_rewritten_unchanged
                change_reset_not_measurement)

lemma moments_loop_step_fail:
  assumes "List.map_filter (rejection K b) m = e # es"
  shows "moments_loop K b (m # ms) ret = Inl e"
  using assms
  by (simp add: moment_instructions_loop_char [of K b m "[]" "[]", simplified])

lemma moments_loop_char:
  "moments_loop K b ms ret =
     (case List.map_filter (rejection K b) (concat ms) of
        [] \<Rightarrow> Inr (ret @ concat (map (normalised_moment K b) ms))
      | e # _ \<Rightarrow> Inl e)"
proof (induction ms arbitrary: ret)
  case Nil
  then show ?case by simp
next
  case (Cons m ms)
  show ?case
  proof (cases "List.map_filter (rejection K b) m")
    case Nil
    then show ?thesis
      by (simp add: moments_loop_step_pass Cons.IH map_filter_append
               del: moments_loop.simps split: list.splits)
  next
    case (Cons e es)
    then show ?thesis
      by (simp add: moments_loop_step_fail map_filter_append del: moments_loop.simps)
  qed
qed

lemma concat_iter_moments:
  "concat (iter_stim_circuit_without_repeat_by_moments c cur) = cur @ without_ticks c"
  by (induction c arbitrary: cur) (simp_all add: without_ticks_def)

lemma with_basis_changed_char:
  "with_basis_changed K b c =
     (case List.map_filter (rejection K b) (without_ticks c) of
        [] \<Rightarrow> Inr (assemble_circuit
                   (concat (map (normalised_moment K b)
                              (iter_stim_circuit_without_repeat_by_moments c []))))
      | e # _ \<Rightarrow> Inl e)"
  by (simp add: with_basis_changed_def moments_loop_char concat_iter_moments
           split: list.splits)

lemma run_unchecked:
  "run K b c False = with_basis_changed K b c"
  by (simp add: run_def split: sum.splits)

lemma run_error:
  "with_basis_changed K b c = Inl e \<Longrightarrow> run K b c flag = Inl e"
  by (simp add: run_def)

subsection \<open>Errors\<close>

lemma without_ticks_append: "without_ticks (xs @ ys) = without_ticks xs @ without_ticks ys"
  by (simp add: without_ticks_def)

lemma with_basis_changed_first_rejection:
  assumes "name i \<noteq> ''TICK''" and "rejection K b i = Some e"
    and "\<forall>j \<in> set pre. name j \<noteq> ''TICK'' \<longrightarrow> rejection K b j = None"
  shows "with_basis_changed K b (pre @ i # post) = Inl e"
proof -
  have "List.map_filter (rejection K b) (without_ticks pre) = []"
    using assms(3) by (simp add: map_filter_empty_iff without_ticks_def)
  moreover have "without_ticks (pre @ i # post) = without_ticks pre @ i # without_ticks post"
    using assms(1) by (simp add: without_ticks_def)
  ultimately show ?thesis
    using assms(2) by (simp add: with_basis_changed_char map_filter_append)
qed

lemma with_basis_changed_rejected:
  assumes "name i \<noteq> ''TICK''" and "rejection K b i = Some e"
  shows "\<exists>j \<in> set (pre @ [i]). \<exists>e'. name j \<noteq> ''TICK'' \<and> rejection K b j = Some e' \<and>
           with_basis_changed K b (pre @ i # post) = Inl e'"
proof (cases "List.map_filter (rejection K b) (without_ticks pre)")
  case Nil
  then have "\<forall>j \<in> set pre. name j \<noteq> ''TICK'' \<longrightarrow> rejection K b j = None"
    by (simp add: map_filter_empty_iff without_ticks_def)
  then have "with_basis_changed K b (pre @ i # post) = Inl e"
    using assms by (rule with_basis_changed_first_rejection [rotated 2])
  with assms show ?thesis by auto
next
  case (Cons e' es)
  then have "e' \<in> set (List.map_filter (rejection K b) (without_ticks pre))" by simp
  then obtain j where j: "j \<in> set (without_ticks pre)" "rejection K b j = Some e'"
    by (auto simp: List.map_filter_def)
  have "with_basis_changed K b (pre @ i # post) = Inl e'"
    using Cons by (simp add: with_basis_changed_char without_ticks_append map_filter_append)
  with j show ?thesis by (auto simp: without_ticks_def)
qed

subsection \<open>Splitting into moments and assembling\<close>

lemma assemble_circuit_single: "assemble_circuit [m] = m"
  by (simp add: assemble_circuit_def)

lemma assemble_circuit_Cons:
  "ms \<noteq> [] \<Longrightarrow> assemble_circuit (m # ms) = m @ TICK # assemble_circuit ms"
  by (simp add: assemble_circuit_def)

lemma iter_moments_nonempty: "iter_stim_circuit_without_repeat_by_moments c cur \<noteq> []"
  by (induction c arbitrary: cur) simp_all

lemma assemble_iter_moments:
  assumes "\<forall>i \<in> set c. name i = ''TICK'' \<longrightarrow> i = TICK"
  shows "assemble_circuit (iter_stim_circuit_without_repeat_by_moments c cur) = cur @ c"
  using assms
proof (induction c arbitrary: cur)
  case Nil
  then show ?case by (simp add: assemble_circuit_single)
next
  case (Cons i c)
  then show ?case
    by (auto simp: assemble_circuit_Cons iter_moments_nonempty)
qed

lemma concat_map_singletons:
  "\<forall>x \<in> set xs. f x = [x] \<Longrightarrow> concat (map f xs) = xs"
  by (induction xs) simp_all

lemma set_iter_moments:
  assumes "m \<in> set (iter_stim_circuit_without_repeat_by_moments c cur)"
  shows "set m \<subseteq> set cur \<union> set (without_ticks c)"
proof -
  from assms have "set m \<subseteq> set (concat (iter_stim_circuit_without_repeat_by_moments c cur))"
    by auto
  then show ?thesis by (simp add: concat_iter_moments)
qed

lemma target_basis_passes:
  assumes "may_have_to_change K b i \<longrightarrow>
             \<not> is_combined_reset_and_measurement_instruction K i \<and>
             get_instruction_basis i = Inr b"
  shows "rejection K b i = None" and "\<not> needs_change K b i"
  using assms by (auto simp: rejection_def needs_change_def)

lemmas pass_eval =
  run_def with_basis_changed_def assemble_circuit_def may_have_to_change_def
  get_instruction_basis_def append_instruction_def stim_backend_def instr_def TICK_def
  combined_message_def unsupported_message_def

lemmas moment_eval =
  normalised_moment_def claimed_moment_def needs_change_def rewritten_def basis_changes_def
  rejection_def

subsection \<open>The sibling pass\<close>

text \<open>
  Every transformation of \<open>ChangeMeasurementBasisPass\<close> creates the \<open>H\<close> at the
  schedule offset \<open>-1\<close>, before the measurement in the target basis at the offset \<open>0\<close>.
\<close>

lemma ChangeMeasurementBasisPass_H_before_measurement:
  assumes "t \<in> set (ChangeMeasurementBasisPass_init basis)"
  shows "map_of (transformation t) (-1) = Some [''H''] \<and>
         map_of (transformation t) 0 = Some [''M'' @ basis_value basis]"
  using assms by (cases basis) (auto simp: ChangeMeasurementBasisPass_init_def)

subsection \<open>The claims on the pass\<close>

text \<open>
  C1, as the code has it. Whenever the pass returns a circuit, that circuit is made of
  the moments of the input, each replaced as \<open>normalised_moment\<close> says and joined by
  \<open>TICK\<close>: an instruction that is a candidate with a basis other than the target is
  replaced by the instruction of the target basis, and the \<open>H\<close> on its targets stands in
  a moment of its own immediately before the moment of the instruction for a measurement
  target and immediately after it for a reset target; every other instruction, those
  already in the target basis among them, is left untouched.
\<close>

theorem run_normalises_moments:
  assumes "run K b c check_all_flows = Inr out"
  shows "out = assemble_circuit
                 (concat (map (normalised_moment K b)
                            (iter_stim_circuit_without_repeat_by_moments c [])))"
proof -
  from assms have "with_basis_changed K b c = Inr out"
    by (auto simp: run_def split: sum.splits if_splits option.splits)
  then show ?thesis
    by (simp add: with_basis_changed_char split: list.splits)
qed

text \<open>
  The theorem at a circuit that measures qubit 0 in the \<open>X\<close> basis and qubit 1 in the
  \<open>Z\<close> basis, for the target \<open>MeasurementBasis Z\<close>.
\<close>

theorem run_normalises_moments_witness:
  "run stim_backend (MeasurementBasis Z) [instr ''MX'' [0], instr ''M'' [1]] False
     = Inr [instr ''H'' [0], TICK, instr ''MZ'' [0], instr ''M'' [1]] \<and>
   [instr ''H'' [0], TICK, instr ''MZ'' [0], instr ''M'' [1]]
     = assemble_circuit
         (concat (map (normalised_moment stim_backend (MeasurementBasis Z))
                    (iter_stim_circuit_without_repeat_by_moments
                       [instr ''MX'' [0], instr ''M'' [1]] [])))"
proof -
  have h: "run stim_backend (MeasurementBasis Z) [instr ''MX'' [0], instr ''M'' [1]] False
             = Inr [instr ''H'' [0], TICK, instr ''MZ'' [0], instr ''M'' [1]]"
    by (simp add: pass_eval)
  show ?thesis using h run_normalises_moments [OF h] by simp
qed

text \<open>
  C1 as stated fails: for the target \<open>ResetBasis Z\<close> the reset of qubit 0 in the \<open>X\<close>
  basis gets its \<open>H\<close> after the reset, not before it.
\<close>

theorem run_claimed_order_counterexample:
  "run stim_backend (ResetBasis Z) [instr ''RX'' [0]] False
     = Inr [instr ''RZ'' [0], TICK, instr ''H'' [0]] \<and>
   run stim_backend (ResetBasis Z) [instr ''RX'' [0]] False
     \<noteq> Inr (assemble_circuit
              (concat (map (claimed_moment stim_backend (ResetBasis Z))
                         (iter_stim_circuit_without_repeat_by_moments [instr ''RX'' [0]] []))))"
  by (simp add: pass_eval moment_eval)

text \<open>
  C7. A circuit \<open>pre @ i # post\<close> whose instruction \<open>i\<close> is a candidate for the change
  and a combined reset and measurement is refused: the pass raises the error of an
  instruction at or before \<open>i\<close>, whatever follows \<open>i\<close>, and returns no circuit. When
  nothing before \<open>i\<close> is refused, the error is the one that names \<open>i\<close> as a combined
  reset and measurement.
\<close>

theorem run_rejects_combined:
  assumes "name i \<noteq> ''TICK''" and "may_have_to_change K b i"
    and "is_combined_reset_and_measurement_instruction K i"
  shows "(\<exists>j \<in> set (pre @ [i]). \<exists>e. name j \<noteq> ''TICK'' \<and> rejection K b j = Some e \<and>
            run K b (pre @ i # post) flag = Inl e) \<and>
         ((\<forall>j \<in> set pre. name j \<noteq> ''TICK'' \<longrightarrow> rejection K b j = None) \<longrightarrow>
            run K b (pre @ i # post) flag = Inl (TQECException (combined_message i)))"
proof -
  have r: "rejection K b i = Some (TQECException (combined_message i))"
    using assms by (simp add: rejection_def)
  show ?thesis
    using with_basis_changed_rejected [OF assms(1) r, of pre post]
          with_basis_changed_first_rejection [OF assms(1) r, of pre post]
    by (auto intro: run_error)
qed

text \<open>
  The theorem at a circuit with an \<open>MR\<close> in its second moment, for the target
  \<open>MeasurementBasis Z\<close>.
\<close>

theorem run_rejects_combined_witness:
  "run stim_backend (MeasurementBasis Z)
     ([instr ''H'' [0], TICK] @ instr ''MR'' [1] # [instr ''M'' [2]]) False
     = Inl (TQECException
              ''Combined reset and measurement instructions are not supported. Found MR.'')"
proof -
  have h1: "name (instr ''MR'' [1]) \<noteq> ''TICK''"
    by (simp add: instr_def)
  have h2: "may_have_to_change stim_backend (MeasurementBasis Z) (instr ''MR'' [1])"
    by (simp add: pass_eval)
  have h3: "is_combined_reset_and_measurement_instruction stim_backend (instr ''MR'' [1])"
    by (simp add: pass_eval)
  have h4: "\<forall>j \<in> set [instr ''H'' [0], TICK]. name j \<noteq> ''TICK'' \<longrightarrow>
              rejection stim_backend (MeasurementBasis Z) j = None"
    by (simp add: pass_eval moment_eval)
  have m: "combined_message (instr ''MR'' [1])
             = ''Combined reset and measurement instructions are not supported. Found MR.''"
    by (simp add: combined_message_def instr_def)
  show ?thesis
    using run_rejects_combined [OF h1 h2 h3, of "[instr ''H'' [0], TICK]" "[instr ''M'' [2]]" False]
          h4 m
    by simp
qed

text \<open>
  C9. A circuit whose barrier markers are plain \<open>TICK\<close>s and whose candidates for the
  change are all read in the target basis is returned as it is, so that the pass applied
  to its own result gives that result again.
\<close>

theorem run_target_basis_identity:
  assumes ticks: "\<forall>i \<in> set c. name i = ''TICK'' \<longrightarrow> i = TICK"
    and target: "\<forall>i \<in> set c. name i \<noteq> ''TICK'' \<and> may_have_to_change K b i \<longrightarrow>
                   \<not> is_combined_reset_and_measurement_instruction K i \<and>
                   get_instruction_basis i = Inr b"
  shows "run K b c False = Inr c \<and>
         (case run K b c False of Inl e \<Rightarrow> Inl e | Inr c' \<Rightarrow> run K b c' False)
           = run K b c False"
proof -
  have ok: "rejection K b i = None \<and> \<not> needs_change K b i" if "i \<in> set (without_ticks c)" for i
    using that target target_basis_passes [of K b i] by (auto simp: without_ticks_def)
  have no_error: "List.map_filter (rejection K b) (without_ticks c) = []"
    using ok by (simp add: map_filter_empty_iff)
  have "normalised_moment K b m = [m]"
    if "m \<in> set (iter_stim_circuit_without_repeat_by_moments c [])" for m
    using set_iter_moments [OF that] ok
    by (auto simp: normalised_moment_def filter_empty_conv)
  then have "concat (map (normalised_moment K b)
                 (iter_stim_circuit_without_repeat_by_moments c []))
               = iter_stim_circuit_without_repeat_by_moments c []"
    by (simp add: concat_map_singletons)
  then have "with_basis_changed K b c = Inr c"
    using no_error assemble_iter_moments [OF ticks, of "[]"]
    by (simp add: with_basis_changed_char)
  then show ?thesis by (simp add: run_unchecked)
qed

text \<open>
  The theorem at a circuit that resets qubit 0 in the \<open>Z\<close> basis and measures it in the
  \<open>X\<close> basis in the next moment, for the target \<open>ResetBasis Z\<close>.
\<close>

theorem run_target_basis_identity_witness:
  "run stim_backend (ResetBasis Z) [instr ''R'' [0], TICK, instr ''MX'' [0]] False
     = Inr [instr ''R'' [0], TICK, instr ''MX'' [0]]"
proof -
  let ?c = "[instr ''R'' [0], TICK, instr ''MX'' [0]]"
  have h1: "\<forall>i \<in> set ?c. name i = ''TICK'' \<longrightarrow> i = TICK"
    by (simp add: instr_def TICK_def)
  have h2: "\<forall>i \<in> set ?c. name i \<noteq> ''TICK'' \<and> may_have_to_change stim_backend (ResetBasis Z) i \<longrightarrow>
              \<not> is_combined_reset_and_measurement_instruction stim_backend i \<and>
              get_instruction_basis i = Inr (ResetBasis Z)"
    by (simp add: pass_eval)
  show ?thesis using run_target_basis_identity [OF h1 h2] by simp
qed

text \<open>
  C10. A circuit \<open>pre @ i # post\<close> whose instruction \<open>i\<close> is a candidate for the change
  and has a name outside \<open>M\<close>, \<open>MZ\<close>, \<open>MX\<close>, \<open>R\<close>, \<open>RZ\<close>, \<open>RX\<close> is refused:
  the pass raises the error of an instruction at or before \<open>i\<close> and returns no circuit.
  When nothing before \<open>i\<close> is refused, the error says that \<open>i\<close> is not supported
  (as a combined reset and measurement when it is one, by its name otherwise).
\<close>

theorem run_rejects_unknown_basis:
  assumes "name i \<noteq> ''TICK''" and "may_have_to_change K b i"
    and "name i \<notin> {''M'', ''MZ'', ''MX'', ''R'', ''RZ'', ''RX''}"
  shows "(\<exists>j \<in> set (pre @ [i]). \<exists>e. name j \<noteq> ''TICK'' \<and> rejection K b j = Some e \<and>
            run K b (pre @ i # post) flag = Inl e) \<and>
         ((\<forall>j \<in> set pre. name j \<noteq> ''TICK'' \<longrightarrow> rejection K b j = None) \<longrightarrow>
            run K b (pre @ i # post) flag =
              Inl (TQECException
                     (if is_combined_reset_and_measurement_instruction K i
                      then combined_message i else unsupported_message i)))"
proof -
  have "get_instruction_basis i = Inl (TQECException (unsupported_message i))"
    using assms(3) by (simp add: get_instruction_basis_def)
  then have r: "rejection K b i =
                  Some (TQECException
                          (if is_combined_reset_and_measurement_instruction K i
                           then combined_message i else unsupported_message i))"
    using assms by (simp add: rejection_def)
  show ?thesis
    using with_basis_changed_rejected [OF assms(1) r, of pre post]
          with_basis_changed_first_rejection [OF assms(1) r, of pre post]
    by (auto intro: run_error)
qed

text \<open>
  The theorem at a circuit that resets qubit 1 in the \<open>Y\<close> basis, for the target
  \<open>ResetBasis X\<close>.
\<close>

theorem run_rejects_unknown_basis_witness:
  "run stim_backend (ResetBasis X)
     ([instr ''RX'' [0], TICK] @ instr ''RY'' [1] # [instr ''H'' [0]]) False
     = Inl (TQECException ''Found a RY instruction, that is not supported.'')"
proof -
  have h1: "name (instr ''RY'' [1]) \<noteq> ''TICK''"
    by (simp add: instr_def)
  have h2: "may_have_to_change stim_backend (ResetBasis X) (instr ''RY'' [1])"
    by (simp add: pass_eval)
  have h3: "name (instr ''RY'' [1]) \<notin> {''M'', ''MZ'', ''MX'', ''R'', ''RZ'', ''RX''}"
    by (simp add: instr_def)
  have h4: "\<not> is_combined_reset_and_measurement_instruction stim_backend (instr ''RY'' [1])"
    by (simp add: pass_eval)
  have h5: "\<forall>j \<in> set [instr ''RX'' [0], TICK]. name j \<noteq> ''TICK'' \<longrightarrow>
              rejection stim_backend (ResetBasis X) j = None"
    by (simp add: pass_eval moment_eval)
  have m: "unsupported_message (instr ''RY'' [1])
             = ''Found a RY instruction, that is not supported.''"
    by (simp add: unsupported_message_def instr_def)
  show ?thesis
    using run_rejects_unknown_basis
            [OF h1 h2 h3, of "[instr ''RX'' [0], TICK]" "[instr ''H'' [0]]" False]
          h4 h5 m
    by simp
qed

section \<open>Properties of the builders\<close>

subsection \<open>Pipe kinds\<close>

lemma spatial_not_temporal: "is_spatial pk \<Longrightarrow> \<not> is_temporal pk"
  by (auto simp: is_temporal_def is_spatial_def)

lemma temporal_head_basis:
  assumes "is_temporal pk"
  shows "\<exists>b. pipe_x pk = Some b \<and> get_basis_along pk Direction3D_X True = Some b"
  using assms
  by (auto simp: is_temporal_def direction_def get_basis_along_def split: if_splits)

subsection \<open>Keys of a substitution\<close>

lemma substitution_layers_loop_keys:
  assumes "substitution_layers_loop L factory mappings ls (s, d) = Inr (s', d')"
  shows "dom s' = dom s \<union> int ` fst ` set ls \<and> dom d' = dom d \<union> int ` fst ` set ls"
  using assms
proof (induction ls arbitrary: s d)
  case Nil
  then show ?case by simp
next
  case (Cons l ls)
  obtain layer_index reset measurement where l: "l = (layer_index, reset, measurement)"
    by (cases l)
  from Cons.prems obtain src_layer dst_layer where
    step: "substitution_layers_loop L factory mappings ls
             (s(int layer_index \<mapsto> Plaquettes src_layer),
              d(int layer_index \<mapsto> Plaquettes dst_layer)) = Inr (s', d')"
    by (auto simp: l Let_def split: sum.splits)
  from Cons.IH [OF step] show ?case
    by (auto simp: l)
qed

lemma layer_indices:
  "int ` fst ` set (layer_resets_and_measurements spec) = {0, 1, 2}"
  by (auto simp: layer_resets_and_measurements_def)

lemma make_substitution_keys:
  assumes "make_substitution
             (substitution_layers_loop L factory mappings (layer_resets_and_measurements spec)
                (Map.empty, Map.empty)) = Inr s"
  shows "dom (src s) = {0, 1, 2} \<and> dom (dst s) = {0, 1, 2}"
proof -
  from assms obtain s' d' where
    loop: "substitution_layers_loop L factory mappings (layer_resets_and_measurements spec)
             (Map.empty, Map.empty) = Inr (s', d')"
    and s: "s = \<lparr>src = s', dst = d'\<rparr>"
    by (auto simp: make_substitution_def split: sum.splits)
  from substitution_layers_loop_keys [OF loop] show ?thesis
    by (simp add: s layer_indices)
qed

lemma junction_pipe_keys:
  assumes "get_spatial_junction_pipe_substitution L spec = Inr s"
  shows "dom (src s) = {0, 1, 2} \<and> dom (dst s) = {0, 1, 2}"
  using assms
  by (auto simp: get_spatial_junction_pipe_substitution_def junction_arm_substitution_def
                 Let_def
           split: if_splits sum.splits option.splits
           dest!: make_substitution_keys)

lemma regular_pipe_keys:
  assumes "get_spatial_regular_pipe_substitution L spec = Inr s"
  shows "dom (src s) = {0, 1, 2} \<and> dom (dst s) = {0, 1, 2}"
  using assms
  by (auto simp: get_spatial_regular_pipe_substitution_def Let_def
           split: if_splits Direction3D.splits
           dest!: make_substitution_keys)

lemma temporal_pipe_keys:
  assumes "get_temporal_pipe_substitution L spec = Inr s"
  shows "dom (src s) = {-1} \<and> dom (dst s) = {0}"
  using assms
  by (auto simp: get_temporal_pipe_substitution_def
                 get_temporal_hadamard_pipe_substitution_def
                 get_temporal_non_hadamard_pipe_substitution_def Let_def
           split: if_splits option.splits)

lemmas builder_eval =
  BaseSubstitutionBuilder_call_def get_spatial_pipe_substitution_def
  get_spatial_regular_pipe_substitution_def get_spatial_junction_pipe_substitution_def
  junction_arm_substitution_def get_spatial_junction_arm_def
  get_plaquette_indices_mapping_def get_temporal_pipe_substitution_def
  get_temporal_hadamard_pipe_substitution_def get_temporal_non_hadamard_pipe_substitution_def
  make_substitution_def layer_resets_and_measurements_def
  is_temporal_def is_spatial_def direction_def get_basis_along_def
  border_to_def get_border_indices_def getitem_def map_keys_def map_values_def
  get_plaquette_def plaquettes_of_def Let_def
  example_library_def example_layer_def example_pipe_def
  regular_cube_def junction_cube_def pipe_OXZ_def pipe_ZXO_def pipe_ZXOH_def

subsection \<open>The junction at the first endpoint\<close>

text \<open>
  A spatial pipe whose first endpoint alone is a spatial junction is built from the
  junction arm \<open>RIGHT\<close> when it runs along the first axis and \<open>UP\<close> when it runs along
  the second.
\<close>

lemma junction_at_first_endpoint:
  assumes "is_spatial (pipe_kind spec)"
    and "is_spatial_junction (fst (cube_specs spec))"
    and "\<not> is_spatial_junction (snd (cube_specs spec))"
  shows "BaseSubstitutionBuilder_call L spec =
           junction_arm_substitution L spec
             (if direction (pipe_kind spec) = Direction3D_X then {RIGHT} else {UP})"
  using assms
  by (auto simp: BaseSubstitutionBuilder_call_def get_spatial_pipe_substitution_def
                 get_spatial_junction_pipe_substitution_def get_spatial_junction_arm_def
                 spatial_not_temporal is_spatial_def)

text \<open>
  A spatial pipe whose second endpoint alone is a spatial junction is sent to the
  builder of regular pipes, whose first assertion fails.
\<close>

lemma junction_at_second_endpoint_fails:
  assumes "is_spatial (pipe_kind spec)"
    and "\<not> is_spatial_junction (fst (cube_specs spec))"
    and "is_spatial_junction (snd (cube_specs spec))"
  shows "BaseSubstitutionBuilder_call L spec = Inl AssertionError"
  using assms
  by (simp add: BaseSubstitutionBuilder_call_def get_spatial_pipe_substitution_def
                get_spatial_regular_pipe_substitution_def spatial_not_temporal)

subsection \<open>The claims on the builders\<close>

text \<open>
  C2 at the pipe \<open>OXZ\<close> from a regular cube to a spatial junction: the arm of the pipe
  is \<open>LEFT\<close>, and the builder raises an \<open>AssertionError\<close> where the claim has the
  substitution of the junction arm \<open>LEFT\<close>.
\<close>

theorem junction_at_second_endpoint:
  "get_spatial_junction_arm (example_pipe pipe_OXZ regular_cube junction_cube) = Inr {LEFT} \<and>
   BaseSubstitutionBuilder_call L (example_pipe pipe_OXZ regular_cube junction_cube)
     = Inl AssertionError"
  by (simp add: builder_eval)

text \<open>
  C3, as the code has it. A substitution that the builder returns for a temporal pipe
  has the one key \<open>-1\<close> at the source and the one key \<open>0\<close> at the destination; a
  substitution that it returns for a spatial pipe has the keys \<open>0\<close>, \<open>1\<close> and \<open>2\<close>,
  the three layers of a block, on both sides.
\<close>

theorem substitution_keys:
  assumes "BaseSubstitutionBuilder_call L spec = Inr s"
  shows "if is_temporal (pipe_kind spec)
         then dom (src s) = {-1} \<and> dom (dst s) = {0}
         else dom (src s) = {0, 1, 2} \<and> dom (dst s) = {0, 1, 2}"
proof (cases "is_temporal (pipe_kind spec)")
  case True
  with assms show ?thesis
    by (simp add: BaseSubstitutionBuilder_call_def temporal_pipe_keys)
next
  case False
  with assms have "get_spatial_pipe_substitution L spec = Inr s"
    by (simp add: BaseSubstitutionBuilder_call_def)
  then have "dom (src s) = {0, 1, 2} \<and> dom (dst s) = {0, 1, 2}"
    by (auto simp: get_spatial_pipe_substitution_def split: if_splits
             dest: junction_pipe_keys regular_pipe_keys)
  with False show ?thesis by simp
qed

text \<open>
  The theorem at the spatial pipe \<open>OXZ\<close> between two regular cubes and at the temporal
  pipe \<open>ZXO\<close> between two regular cubes.
\<close>

theorem substitution_keys_witness:
  "BaseSubstitutionBuilder_call example_library
     (example_pipe pipe_OXZ regular_cube regular_cube) = Inr example_spatial_substitution \<and>
   dom (src example_spatial_substitution) = {0, 1, 2} \<and>
   dom (dst example_spatial_substitution) = {0, 1, 2} \<and>
   BaseSubstitutionBuilder_call example_library
     (example_pipe pipe_ZXO regular_cube regular_cube) = Inr example_temporal_substitution \<and>
   dom (src example_temporal_substitution) = {-1} \<and>
   dom (dst example_temporal_substitution) = {0}"
proof -
  have h1: "BaseSubstitutionBuilder_call example_library
              (example_pipe pipe_OXZ regular_cube regular_cube)
            = Inr example_spatial_substitution"
    by (simp add: builder_eval example_spatial_substitution_def)
  have h2: "BaseSubstitutionBuilder_call example_library
              (example_pipe pipe_ZXO regular_cube regular_cube)
            = Inr example_temporal_substitution"
    by (simp add: builder_eval example_temporal_substitution_def)
  have t1: "\<not> is_temporal (pipe_kind (example_pipe pipe_OXZ regular_cube regular_cube))"
    by (simp add: is_temporal_def direction_def example_pipe_def pipe_OXZ_def)
  have t2: "is_temporal (pipe_kind (example_pipe pipe_ZXO regular_cube regular_cube))"
    by (simp add: is_temporal_def direction_def example_pipe_def pipe_ZXO_def)
  from substitution_keys [OF h1] substitution_keys [OF h2] t1 t2 h1 h2 show ?thesis
    by (simp only: if_True if_False simp_thms)
qed

text \<open>
  C3 as stated fails: the substitution of the spatial pipe \<open>OXZ\<close> between two regular
  cubes has keys other than \<open>-1\<close> and \<open>0\<close>.
\<close>

theorem substitution_keys_counterexample:
  "\<not> keys_within_boundary_layers
       (BaseSubstitutionBuilder_call example_library
          (example_pipe pipe_OXZ regular_cube regular_cube))"
  by (simp add: keys_within_boundary_layers_def builder_eval)

text \<open>
  C4. For a temporal pipe with the Hadamard flag the builder returns the substitution
  whose source side has, at the relative layer \<open>-1\<close>, the Hadamard transition layer
  in the orientation of the pipe's basis on the first axis at the head, and whose
  destination side has, at the relative layer \<open>0\<close>, the plain memory layer in the
  rotated orientation.
\<close>

theorem temporal_hadamard_layers:
  assumes "is_temporal (pipe_kind spec)" and "has_hadamard (pipe_kind spec)"
  shows "\<exists>b. get_basis_along (pipe_kind spec) Direction3D_X True = Some b \<and>
           BaseSubstitutionBuilder_call L spec =
             Inr \<lparr>src = [-1 \<mapsto> plaquettes_of L
                                  (get_temporal_hadamard_rpng_descriptions L (orientation_of b))],
                  dst = [0 \<mapsto> plaquettes_of L
                                 (get_memory_qubit_rpng_descriptions L
                                    (rotated (orientation_of b)) None None)]\<rparr>"
proof -
  obtain b where b: "get_basis_along (pipe_kind spec) Direction3D_X True = Some b"
    using temporal_head_basis [OF assms(1)] by blast
  have "BaseSubstitutionBuilder_call L spec = get_temporal_hadamard_pipe_substitution L spec"
    using assms
    by (simp add: BaseSubstitutionBuilder_call_def get_temporal_pipe_substitution_def)
  also have "\<dots> =
      Inr \<lparr>src = [-1 \<mapsto> plaquettes_of L
                           (get_temporal_hadamard_rpng_descriptions L (orientation_of b))],
           dst = [0 \<mapsto> plaquettes_of L
                          (get_memory_qubit_rpng_descriptions L
                             (rotated (orientation_of b)) None None)]\<rparr>"
    using assms b
    by (cases b)
       (simp_all add: get_temporal_hadamard_pipe_substitution_def plaquettes_of_def)
  finally show ?thesis using b by blast
qed

text \<open>The theorem at the temporal pipe \<open>ZXOH\<close> between two regular cubes.\<close>

theorem temporal_hadamard_layers_witness:
  "BaseSubstitutionBuilder_call example_library
     (example_pipe pipe_ZXOH regular_cube regular_cube)
   = Inr \<lparr>src = [-1 \<mapsto> plaquettes_of example_library
                          (get_temporal_hadamard_rpng_descriptions example_library HORIZONTAL)],
          dst = [0 \<mapsto> plaquettes_of example_library
                         (get_memory_qubit_rpng_descriptions example_library VERTICAL
                            None None)]\<rparr>"
proof -
  let ?spec = "example_pipe pipe_ZXOH regular_cube regular_cube"
  have h1: "is_temporal (pipe_kind ?spec)"
    by (simp add: is_temporal_def direction_def example_pipe_def pipe_ZXOH_def)
  have h2: "has_hadamard (pipe_kind ?spec)"
    by (simp add: example_pipe_def pipe_ZXOH_def)
  have head: "get_basis_along (pipe_kind ?spec) Direction3D_X True = Some Z"
    by (simp add: get_basis_along_def direction_def example_pipe_def pipe_ZXOH_def)
  from temporal_hadamard_layers [OF h1 h2, of example_library] head show ?thesis
    by auto
qed

text \<open>
  C5. For a temporal pipe without the Hadamard flag the builder returns a substitution
  whose source side at the relative layer \<open>-1\<close> and whose destination side at the
  relative layer \<open>0\<close> hold one and the same plaquette layer, the plain memory layer.
\<close>

theorem temporal_non_hadamard_same_layer:
  assumes "is_temporal (pipe_kind spec)" and "\<not> has_hadamard (pipe_kind spec)"
  shows "\<exists>s layer. BaseSubstitutionBuilder_call L spec = Inr s \<and>
           src s (-1) = Some layer \<and> dst s 0 = Some layer \<and>
           layer = plaquettes_of L
                     (get_memory_qubit_rpng_descriptions L
                        (if pipe_x (pipe_kind spec) = Some Z then HORIZONTAL else VERTICAL)
                        None None)"
  using assms
  by (simp add: BaseSubstitutionBuilder_call_def get_temporal_pipe_substitution_def
                get_temporal_non_hadamard_pipe_substitution_def plaquettes_of_def Let_def)

text \<open>The theorem at the temporal pipe \<open>ZXO\<close> between two regular cubes.\<close>

theorem temporal_non_hadamard_same_layer_witness:
  "\<exists>s layer. BaseSubstitutionBuilder_call example_library
                (example_pipe pipe_ZXO regular_cube regular_cube) = Inr s \<and>
     src s (-1) = Some layer \<and> dst s 0 = Some layer \<and>
     layer = plaquettes_of example_library
               (get_memory_qubit_rpng_descriptions example_library HORIZONTAL None None)"
proof -
  let ?spec = "example_pipe pipe_ZXO regular_cube regular_cube"
  have h1: "is_temporal (pipe_kind ?spec)"
    by (simp add: is_temporal_def direction_def example_pipe_def pipe_ZXO_def)
  have h2: "\<not> has_hadamard (pipe_kind ?spec)"
    by (simp add: example_pipe_def pipe_ZXO_def)
  have x: "pipe_x (pipe_kind ?spec) = Some Z"
    by (simp add: example_pipe_def pipe_ZXO_def)
  from temporal_non_hadamard_same_layer [OF h1 h2, of example_library] x show ?thesis
    by simp
qed

text \<open>
  C6. For a spatial pipe whose two endpoints are both spatial junctions the builder
  raises the \<open>TQECException\<close> that says so, and returns no substitution.
\<close>

theorem two_junctions_rejected:
  assumes "is_spatial (pipe_kind spec)"
    and "is_spatial_junction (fst (cube_specs spec))"
    and "is_spatial_junction (snd (cube_specs spec))"
  shows "BaseSubstitutionBuilder_call L spec =
           Inl (TQECException ''Found 2 spatial junctions connected. This is not supported yet.'')"
  using assms
  by (simp add: BaseSubstitutionBuilder_call_def get_spatial_pipe_substitution_def
                get_spatial_junction_pipe_substitution_def spatial_not_temporal)

text \<open>The theorem at the spatial pipe \<open>OXZ\<close> between two spatial junctions.\<close>

theorem two_junctions_rejected_witness:
  "BaseSubstitutionBuilder_call example_library
     (example_pipe pipe_OXZ junction_cube junction_cube)
   = Inl (TQECException ''Found 2 spatial junctions connected. This is not supported yet.'')"
proof -
  let ?spec = "example_pipe pipe_OXZ junction_cube junction_cube"
  have h1: "is_spatial (pipe_kind ?spec)"
    by (simp add: is_spatial_def direction_def example_pipe_def pipe_OXZ_def)
  have h2: "is_spatial_junction (fst (cube_specs ?spec))"
    by (simp add: example_pipe_def junction_cube_def)
  have h3: "is_spatial_junction (snd (cube_specs ?spec))"
    by (simp add: example_pipe_def junction_cube_def)
  show ?thesis by (rule two_junctions_rejected [OF h1 h2 h3])
qed

text \<open>
  C8. For a cube of kind \<open>Port\<close> the block builder raises a \<open>TQECException\<close> that says
  that no block is built for a port, for a cube of kind \<open>YCube\<close> it raises a
  \<open>NotImplementedError\<close>; in neither case does it return a block.
\<close>

theorem block_builder_rejects_port_and_ycube:
  "(kind spec = Port \<longrightarrow>
      BaseBlockBuilder_call L spec = Inl (TQECException ''Cannot build a block for a Port.''))
   \<and> (kind spec = YCube \<longrightarrow>
      BaseBlockBuilder_call L spec = Inl (NotImplementedError ''Y cube is not implemented.''))"
  by (simp add: BaseBlockBuilder_call_def)

text \<open>The theorem at a port and at a Y cube.\<close>

theorem block_builder_rejects_port_and_ycube_witness:
  "BaseBlockBuilder_call example_library
     \<lparr>kind = Port, junction_arms = {}, is_spatial_junction = False\<rparr>
     = Inl (TQECException ''Cannot build a block for a Port.'') \<and>
   BaseBlockBuilder_call example_library
     \<lparr>kind = YCube, junction_arms = {}, is_spatial_junction = False\<rparr>
     = Inl (NotImplementedError ''Y cube is not implemented.'')"
  using block_builder_rejects_port_and_ycube
          [of "\<lparr>kind = Port, junction_arms = {}, is_spatial_junction = False\<rparr>" example_library]
        block_builder_rejects_port_and_ycube
          [of "\<lparr>kind = YCube, junction_arms = {}, is_spatial_junction = False\<rparr>" example_library]
  by simp

end
